theory Spec2Isabelle
  imports Complex_Main "HOL-Library.Multiset"
begin

section \<open>Python values\<close>

text \<open>
  The client of \<^verbatim>\<open>py_client.py\<close> handles the values that \<^verbatim>\<open>response.json()\<close>
  produces and that \<^verbatim>\<open>requests.post(url, json=...)\<close> accepts: None, bool, int,
  float, str, list and dict with string keys.

  A number is modelled by its exact mathematical value: every finite double and every
  Python int is a rational, and Python compares int and float exactly. The three
  non-finite floats are values of their own. The comparison \<^verbatim>\<open>>\<close> is the only
  arithmetic the program performs, so no rounding is involved anywhere.
\<close>

datatype pynum = Finite rat | PosInf | NegInf | NaN

text \<open>
  A dict is an association list in insertion order; its keys are distinct, and a lookup
  is \<open>map_of\<close>.
\<close>

datatype pyval =
    PNone
  | PBool bool
  | PInt int
  | PFloat pynum
  | PStr string
  | PList "pyval list"
  | PDict "(string \<times> pyval) list"

datatype error =
    KeyError string
  | TypeError
  | JSONDecodeError
  | RequestException string

text \<open>The numeric value of a Python number; bool is a subclass of int.\<close>

fun num_of :: "pyval \<Rightarrow> pynum option" where
  "num_of (PBool b) = Some (Finite (if b then 1 else 0))"
| "num_of (PInt i) = Some (Finite (of_int i))"
| "num_of (PFloat x) = Some x"
| "num_of _ = None"

text \<open>\<^verbatim>\<open>a > b\<close> on numbers: false whenever a NaN is involved.\<close>

fun num_gt :: "pynum \<Rightarrow> pynum \<Rightarrow> bool" where
  "num_gt NaN _ = False"
| "num_gt _ NaN = False"
| "num_gt (Finite a) (Finite b) = (b < a)"
| "num_gt (Finite a) PosInf = False"
| "num_gt (Finite a) NegInf = True"
| "num_gt PosInf PosInf = False"
| "num_gt PosInf _ = True"
| "num_gt NegInf _ = False"

text \<open>
  \<^verbatim>\<open>v > fault_threshold\<close> for a numeric threshold: a left operand that is not a
  number (None, str, list, dict) raises TypeError.
\<close>

definition py_gt :: "pyval \<Rightarrow> pynum \<Rightarrow> error + bool" where
  "py_gt v th = (case num_of v of None \<Rightarrow> Inl TypeError | Some x \<Rightarrow> Inr (num_gt x th))"

text \<open>
  \<^verbatim>\<open>entry[key]\<close> with a string key: a dict looks the key up and raises KeyError
  when it is missing; every other value raises TypeError (a str or list wants an
  integer index, the others are not subscriptable).
\<close>

fun py_getitem :: "pyval \<Rightarrow> string \<Rightarrow> error + pyval" where
  "py_getitem (PDict kvs) k =
     (case map_of kvs k of None \<Rightarrow> Inl (KeyError k) | Some v \<Rightarrow> Inr v)"
| "py_getitem _ k = Inl TypeError"

text \<open>
  \<^verbatim>\<open>for entry in data\<close>: a list yields its elements, a dict its keys, a str its
  characters; the other values are not iterable.
\<close>

fun py_iter :: "pyval \<Rightarrow> error + pyval list" where
  "py_iter (PList xs) = Inr xs"
| "py_iter (PDict kvs) = Inr (map (\<lambda>kv. PStr (fst kv)) kvs)"
| "py_iter (PStr s) = Inr (map (\<lambda>c. PStr [c]) s)"
| "py_iter _ = Inl TypeError"

text \<open>\<^verbatim>\<open>if data:\<close> tests the truth value.\<close>

fun py_truthy :: "pyval \<Rightarrow> bool" where
  "py_truthy PNone = False"
| "py_truthy (PBool b) = b"
| "py_truthy (PInt i) = (i \<noteq> 0)"
| "py_truthy (PFloat x) = (x \<noteq> Finite 0)"
| "py_truthy (PStr s) = (s \<noteq> [])"
| "py_truthy (PList xs) = (xs \<noteq> [])"
| "py_truthy (PDict kvs) = (kvs \<noteq> [])"

section \<open>Effects\<close>

text \<open>
  The program has two effects: calls to the \<^verbatim>\<open>requests\<close> library and lines on
  standard output. Both are recorded, in order, in a trace. A call of the library is
  recorded with its arguments; a printed line is recorded as its format together with
  the values interpolated into it.
\<close>

datatype request =
    Post (url: string) (json: pyval)
  | Get (url: string) (params: pyval)

record response =
  status_code :: int
  text_of :: string
  body_json :: "pyval option"

datatype message =
    DataInserted pyval
  | InsertFailed int string
  | QuerySuccessful
  | QueryFailed int string
  | FaultDetected pyval pyval
  | NoFaults
  | TotalFaults nat

datatype event = HttpCall request | Print message

text \<open>
  A computation yields the trace of what it did and then either raises or returns. The
  trace is kept when an exception is raised: what was printed stays printed.
\<close>

type_synonym 'a io = "event list \<times> (error + 'a)"

definition io_bind :: "'a io \<Rightarrow> ('a \<Rightarrow> 'b io) \<Rightarrow> 'b io" where
  "io_bind m f =
     (case m of
        (t, Inl e) \<Rightarrow> (t, Inl e)
      | (t, Inr x) \<Rightarrow> (case f x of (t', r) \<Rightarrow> (t @ t', r)))"

text \<open>
  The library and the server behind it are a parameter: a function from the call to
  what the call does, which is to raise (a transport fault, a body that cannot be
  serialised) or to return a response. \<^verbatim>\<open>response.json()\<close> raises when the body is
  not JSON.
\<close>

type_synonym http = "request \<Rightarrow> error + response"

definition response_json :: "response \<Rightarrow> error + pyval" where
  "response_json r = (case body_json r of None \<Rightarrow> Inl JSONDecodeError | Some v \<Rightarrow> Inr v)"

section \<open>The client\<close>

definition BASE_URL :: string where
  "BASE_URL = ''http://localhost:8000''"

text \<open>
  \<^verbatim>\<open>insert_telemetry(sensor_name, timestamp, value, timeseries_id, fc1_flag=None)\<close>:
  the last argument is \<open>None\<close> when the caller omits it, and the default applies.
\<close>

definition insert_telemetry ::
  "http \<Rightarrow> pyval \<Rightarrow> pyval \<Rightarrow> pyval \<Rightarrow> pyval \<Rightarrow> pyval option \<Rightarrow> pyval io" where
  "insert_telemetry http sensor_name timestamp value timeseries_id fc1_arg =
     (let fc1_flag = (case fc1_arg of None \<Rightarrow> PNone | Some f \<Rightarrow> f);
          url = BASE_URL @ ''/telemetry'';
          data = PDict [(''sensor_name'', sensor_name),
                        (''timestamp'', timestamp),
                        (''value'', value),
                        (''fc1_flag'', fc1_flag),
                        (''timeseries_id'', timeseries_id)]
      in case http (Post url data) of
           Inl e \<Rightarrow> ([HttpCall (Post url data)], Inl e)
         | Inr response \<Rightarrow>
             if status_code response = 200
             then ([HttpCall (Post url data), Print (DataInserted data)], Inr PNone)
             else ([HttpCall (Post url data),
                    Print (InsertFailed (status_code response) (text_of response))],
                   Inr PNone))"

definition query_telemetry :: "http \<Rightarrow> pyval \<Rightarrow> pyval \<Rightarrow> pyval \<Rightarrow> pyval io" where
  "query_telemetry http timeseries_id start_time end_time =
     (let url = BASE_URL @ ''/query_by_id'';
          params = PDict [(''timeseries_id'', timeseries_id),
                          (''start_time'', start_time),
                          (''end_time'', end_time)]
      in case http (Get url params) of
           Inl e \<Rightarrow> ([HttpCall (Get url params)], Inl e)
         | Inr response \<Rightarrow>
             if status_code response = 200
             then ([HttpCall (Get url params), Print QuerySuccessful], response_json response)
             else ([HttpCall (Get url params),
                    Print (QueryFailed (status_code response) (text_of response))],
                   Inr PNone))"

text \<open>
  The loop of \<^verbatim>\<open>check_for_fault\<close>, with \<^verbatim>\<open>fault_count\<close> as its accumulator. One
  round evaluates \<^verbatim>\<open>entry['value']\<close>, compares it with the threshold and, when it is
  greater, increments the counter and prints the line, which evaluates
  \<^verbatim>\<open>entry['timestamp']\<close> and then \<^verbatim>\<open>entry['value']\<close> again. The loop returns the
  final \<^verbatim>\<open>fault_count\<close>.
\<close>

fun fault_loop :: "pynum \<Rightarrow> pyval list \<Rightarrow> nat \<Rightarrow> nat io" where
  "fault_loop th [] fault_count = ([], Inr fault_count)"
| "fault_loop th (entry # rest) fault_count =
     (case py_getitem entry ''value'' of
        Inl e \<Rightarrow> ([], Inl e)
      | Inr v \<Rightarrow>
          (case py_gt v th of
             Inl e \<Rightarrow> ([], Inl e)
           | Inr False \<Rightarrow> fault_loop th rest fault_count
           | Inr True \<Rightarrow>
               (case py_getitem entry ''timestamp'' of
                  Inl e \<Rightarrow> ([], Inl e)
                | Inr ts \<Rightarrow>
                    (case py_getitem entry ''value'' of
                       Inl e \<Rightarrow> ([], Inl e)
                     | Inr v' \<Rightarrow>
                         io_bind ([Print (FaultDetected ts v')], Inr ())
                           (\<lambda>_. fault_loop th rest (fault_count + 1))))))"

text \<open>
  \<^verbatim>\<open>check_for_fault(data, fault_threshold=0.95)\<close>. It has no return statement, so
  a call that does not raise returns None.
\<close>

definition check_for_fault :: "pyval \<Rightarrow> pynum \<Rightarrow> pyval io" where
  "check_for_fault data fault_threshold =
     (case py_iter data of
        Inl e \<Rightarrow> ([], Inl e)
      | Inr entries \<Rightarrow>
          io_bind (fault_loop fault_threshold entries 0)
            (\<lambda>fault_count.
               if fault_count = 0 then ([Print NoFaults], Inr PNone)
               else ([Print (TotalFaults fault_count)], Inr PNone)))"

text \<open>
  The float literals of the source, as the doubles they denote: \<^verbatim>\<open>0.95\<close>, \<^verbatim>\<open>0.8\<close>
  and \<^verbatim>\<open>0.9\<close> are not decimal fractions but the nearest doubles.
\<close>

definition float_0_95 :: pynum where
  "float_0_95 = Finite (4278419646001971 / 4503599627370496)"

definition float_0_8 :: pynum where
  "float_0_8 = Finite (3602879701896397 / 4503599627370496)"

definition float_0_9 :: pynum where
  "float_0_9 = Finite (8106479329266893 / 9007199254740992)"

text \<open>The threshold of a call that omits \<^verbatim>\<open>fault_threshold\<close>.\<close>

definition default_fault_threshold :: pynum where
  "default_fault_threshold = float_0_95"

text \<open>The block under \<^verbatim>\<open>if __name__ == "__main__"\<close>.\<close>

definition series_id :: pyval where
  "series_id = PStr ''8f541ba4-c437-43ba-ba1d-5c946583fe54''"

definition main :: "http \<Rightarrow> pyval io" where
  "main http =
     io_bind (insert_telemetry http (PStr ''Sa_FanSpeed'') (PStr ''2024-08-28T12:00:00Z'')
                (PFloat float_0_8) series_id None) (\<lambda>_.
     io_bind (insert_telemetry http (PStr ''Sa_FanSpeed'') (PStr ''2024-08-28T12:01:00Z'')
                (PFloat float_0_9) series_id None) (\<lambda>_.
     io_bind (insert_telemetry http (PStr ''Sa_FanSpeed'') (PStr ''2024-08-28T12:02:00Z'')
                (PFloat (Finite 1)) series_id None) (\<lambda>_.
     io_bind (query_telemetry http series_id (PStr ''2024-08-28T12:00:00Z'')
                (PStr ''2024-08-28T12:03:00Z'')) (\<lambda>data.
     if py_truthy data then check_for_fault data float_0_95
     else ([], Inr PNone)))))"

section \<open>Vocabulary of the properties\<close>

text \<open>
  What the properties below speak about, each read off an entry with the program's own
  operations: whether the number under \<^verbatim>\<open>'value'\<close> is greater than the threshold,
  whether a key can be read, and whether one round of the loop runs through.
\<close>

definition value_exceeds :: "pynum \<Rightarrow> pyval \<Rightarrow> bool" where
  "value_exceeds th entry =
     (case py_getitem entry ''value'' of
        Inl _ \<Rightarrow> False
      | Inr v \<Rightarrow> (case num_of v of None \<Rightarrow> False | Some x \<Rightarrow> num_gt x th))"

definition has_key :: "pyval \<Rightarrow> string \<Rightarrow> bool" where
  "has_key entry k = (case py_getitem entry k of Inl _ \<Rightarrow> False | Inr _ \<Rightarrow> True)"

definition numeric_value :: "pyval \<Rightarrow> bool" where
  "numeric_value entry =
     (case py_getitem entry ''value'' of
        Inl _ \<Rightarrow> False
      | Inr v \<Rightarrow> (case num_of v of None \<Rightarrow> False | Some _ \<Rightarrow> True))"

text \<open>
  An entry the loop can process: a mapping with a number under \<^verbatim>\<open>'value'\<close> and,
  when that number is greater than the threshold, with a \<^verbatim>\<open>'timestamp'\<close>. Every
  Query Result Entry of the data model is one.
\<close>

definition scannable :: "pynum \<Rightarrow> pyval \<Rightarrow> bool" where
  "scannable th entry =
     (numeric_value entry \<and>
      (if value_exceeds th entry then has_key entry ''timestamp'' else True))"

text \<open>The lines one entry contributes to the output.\<close>

definition fault_lines :: "pynum \<Rightarrow> pyval \<Rightarrow> event list" where
  "fault_lines th entry =
     (if value_exceeds th entry then
        (case (py_getitem entry ''timestamp'', py_getitem entry ''value'') of
           (Inr ts, Inr v) \<Rightarrow> [Print (FaultDetected ts v)]
         | _ \<Rightarrow> [])
      else [])"

text \<open>
  The weaker condition on the keys alone: the entry is a mapping that has the key
  \<^verbatim>\<open>'value'\<close> and, when its value is greater than the threshold, the key
  \<^verbatim>\<open>'timestamp'\<close>. It says nothing about the type of the value.
\<close>

fun is_mapping :: "pyval \<Rightarrow> bool" where
  "is_mapping (PDict _) = True"
| "is_mapping _ = False"

definition fault_precondition :: "pynum \<Rightarrow> pyval \<Rightarrow> bool" where
  "fault_precondition th entry =
     (is_mapping entry \<and> has_key entry ''value'' \<and>
      (if value_exceeds th entry then has_key entry ''timestamp'' else True))"

text \<open>
  The fault count: the value of \<^verbatim>\<open>fault_count\<close> when the loop ends, and the total
  that the last printed line reports. Neither exists when an exception ends the call.
\<close>

definition counted :: "nat io \<Rightarrow> nat option" where
  "counted r = (case snd r of Inl _ \<Rightarrow> None | Inr n \<Rightarrow> Some n)"

definition reported_total :: "pyval io \<Rightarrow> nat option" where
  "reported_total r =
     (case rev (fst r) of
        Print NoFaults # _ \<Rightarrow> Some 0
      | Print (TotalFaults n) # _ \<Rightarrow> Some n
      | _ \<Rightarrow> None)"

text \<open>The lines that only \<^verbatim>\<open>check_for_fault\<close> prints, and the library calls of a trace.\<close>

fun is_fault_report :: "event \<Rightarrow> bool" where
  "is_fault_report (Print (FaultDetected _ _)) = True"
| "is_fault_report (Print NoFaults) = True"
| "is_fault_report (Print (TotalFaults _)) = True"
| "is_fault_report _ = False"

fun http_calls :: "event list \<Rightarrow> request list" where
  "http_calls [] = []"
| "http_calls (HttpCall r # evs) = r # http_calls evs"
| "http_calls (Print _ # evs) = http_calls evs"

text \<open>
  The two halves of the entry point before the guard: the three calls of
  \<^verbatim>\<open>insert_telemetry\<close> in sequence, and the call of \<^verbatim>\<open>query_telemetry\<close>.
\<close>

definition demo_inserts :: "http \<Rightarrow> pyval io" where
  "demo_inserts http =
     io_bind (insert_telemetry http (PStr ''Sa_FanSpeed'') (PStr ''2024-08-28T12:00:00Z'')
                (PFloat float_0_8) series_id None) (\<lambda>_.
     io_bind (insert_telemetry http (PStr ''Sa_FanSpeed'') (PStr ''2024-08-28T12:01:00Z'')
                (PFloat float_0_9) series_id None) (\<lambda>_.
     insert_telemetry http (PStr ''Sa_FanSpeed'') (PStr ''2024-08-28T12:02:00Z'')
                (PFloat (Finite 1)) series_id None))"

definition demo_query :: "http \<Rightarrow> pyval io" where
  "demo_query http =
     query_telemetry http series_id (PStr ''2024-08-28T12:00:00Z'')
       (PStr ''2024-08-28T12:03:00Z'')"

section \<open>Example inputs\<close>

text \<open>The two readings of the specification's example, \<^verbatim>\<open>1.0\<close> at t1 and \<^verbatim>\<open>0.5\<close> at t2.\<close>

definition reading_t1 :: pyval where
  "reading_t1 = PDict [(''timestamp'', PStr ''t1''), (''value'', PFloat (Finite 1))]"

definition reading_t2 :: pyval where
  "reading_t2 = PDict [(''timestamp'', PStr ''t2''), (''value'', PFloat (Finite (1 / 2)))]"

text \<open>Mocked servers: each answers every call alike.\<close>

definition server_error :: http where
  "server_error =
     (\<lambda>req. Inr \<lparr>status_code = 500, text_of = ''Internal Server Error'', body_json = None\<rparr>)"

definition server_not_found :: http where
  "server_not_found =
     (\<lambda>req. Inr \<lparr>status_code = 404, text_of = ''Not Found'', body_json = None\<rparr>)"

definition server_two_readings :: http where
  "server_two_readings =
     (\<lambda>req. Inr \<lparr>status_code = 200, text_of = ''[...]'',
                  body_json = Some (PList [reading_t1, reading_t2])\<rparr>)"

definition server_no_readings :: http where
  "server_no_readings =
     (\<lambda>req. Inr \<lparr>status_code = 200, text_of = ''[]'', body_json = Some (PList [])\<rparr>)"

section \<open>The loop of check_for_fault\<close>

text \<open>One round on an entry the loop can process, and on one it cannot.\<close>

lemma fault_loop_step_ok:
  assumes "scannable th entry"
  shows "fault_loop th (entry # rest) n =
           (case fault_loop th rest (if value_exceeds th entry then n + 1 else n) of
              (t, r) \<Rightarrow> (fault_lines th entry @ t, r))"
  using assms
  by (auto simp: scannable_def numeric_value_def value_exceeds_def has_key_def fault_lines_def
        py_gt_def io_bind_def split: sum.splits option.splits prod.splits bool.splits)

lemma fault_loop_step_bad:
  assumes "\<not> scannable th entry"
  shows "\<exists>e. fault_loop th (entry # rest) n = ([], Inl e)"
  using assms
  by (auto simp: scannable_def numeric_value_def value_exceeds_def has_key_def
        py_gt_def io_bind_def split: sum.splits option.splits prod.splits bool.splits)

lemma fault_loop_ok:
  "list_all (scannable th) entries \<Longrightarrow>
   fault_loop th entries n =
     (concat (map (fault_lines th) entries),
      Inr (n + length (filter (value_exceeds th) entries)))"
proof (induction entries arbitrary: n)
  case Nil
  then show ?case by simp
next
  case (Cons entry rest)
  then have ok: "scannable th entry" and rest: "list_all (scannable th) rest" by simp_all
  show ?case
    unfolding fault_loop_step_ok [OF ok] Cons.IH [OF rest] by simp
qed

lemma fault_loop_bad:
  "\<not> list_all (scannable th) entries \<Longrightarrow> \<exists>t e. fault_loop th entries n = (t, Inl e)"
proof (induction entries arbitrary: n)
  case Nil
  then show ?case by simp
next
  case (Cons entry rest)
  show ?case
  proof (cases "scannable th entry")
    case False
    from fault_loop_step_bad [OF False] show ?thesis by blast
  next
    case True
    with Cons.prems have "\<not> list_all (scannable th) rest" by simp
    from Cons.IH [OF this] obtain t e
      where "fault_loop th rest (if value_exceeds th entry then n + 1 else n) = (t, Inl e)"
      by blast
    then show ?thesis unfolding fault_loop_step_ok [OF True] by simp
  qed
qed

lemma length_fault_lines:
  "scannable th entry \<Longrightarrow>
   length (fault_lines th entry) = (if value_exceeds th entry then 1 else 0)"
  by (auto simp: scannable_def fault_lines_def has_key_def value_exceeds_def split: sum.splits)

lemma length_concat_fault_lines:
  "list_all (scannable th) entries \<Longrightarrow>
   length (concat (map (fault_lines th) entries)) = length (filter (value_exceeds th) entries)"
  by (induction entries) (simp_all add: length_fault_lines)

lemma value_exceeds_finite:
  "py_getitem entry ''value'' = Inr v \<Longrightarrow> num_of v = Some (Finite x) \<Longrightarrow>
   value_exceeds (Finite t) entry = (t < x)"
  by (simp add: value_exceeds_def)

lemma check_for_fault_ok:
  assumes "list_all (scannable th) entries"
  shows "check_for_fault (PList entries) th =
           (concat (map (fault_lines th) entries) @
              [Print (if length (filter (value_exceeds th) entries) = 0 then NoFaults
                      else TotalFaults (length (filter (value_exceeds th) entries)))],
            Inr PNone)"
  by (simp add: check_for_fault_def fault_loop_ok [OF assms] io_bind_def)

lemma check_for_fault_bad:
  assumes "\<not> list_all (scannable th) entries"
  shows "\<exists>t e. check_for_fault (PList entries) th = (t, Inl e)"
proof -
  from fault_loop_bad [OF assms] obtain t e where "fault_loop th entries 0 = (t, Inl e)"
    by blast
  then show ?thesis by (simp add: check_for_fault_def io_bind_def)
qed

lemma example_readings:
  "scannable float_0_95 reading_t1" "scannable float_0_95 reading_t2"
  "value_exceeds float_0_95 reading_t1" "\<not> value_exceeds float_0_95 reading_t2"
  by (simp_all add: scannable_def reading_t1_def reading_t2_def numeric_value_def
        value_exceeds_def has_key_def float_0_95_def)

subsection \<open>The count, as kept and as reported\<close>

lemma counted_fault_loop:
  "counted (fault_loop th entries 0) =
     (if list_all (scannable th) entries
      then Some (length (filter (value_exceeds th) entries)) else None)"
proof (cases "list_all (scannable th) entries")
  case True
  then show ?thesis by (simp add: fault_loop_ok counted_def)
next
  case False
  from fault_loop_bad [OF False] obtain t e where "fault_loop th entries 0 = (t, Inl e)"
    by blast
  with False show ?thesis by (simp add: counted_def)
qed

lemma fault_lines_not_total:
  "rev (fault_lines th entry) = [] \<or>
   (\<exists>ts v. rev (fault_lines th entry) = [Print (FaultDetected ts v)])"
  by (auto simp: fault_lines_def split: sum.splits)

text \<open>The loop itself never prints a total: its last line, if any, is about one entry.\<close>

lemma fault_loop_trace_reports:
  "reported_total (fst (fault_loop th entries n), r) = None"
proof (induction entries arbitrary: n)
  case Nil
  then show ?case by (simp add: reported_total_def)
next
  case (Cons entry rest)
  show ?case
  proof (cases "scannable th entry")
    case False
    from fault_loop_step_bad [OF False] obtain e
      where "fault_loop th (entry # rest) n = ([], Inl e)" by blast
    then show ?thesis by (simp add: reported_total_def)
  next
    case True
    obtain t r'
      where tr: "fault_loop th rest (if value_exceeds th entry then n + 1 else n) = (t, r')"
      by (cases "fault_loop th rest (if value_exceeds th entry then n + 1 else n)")
    from Cons.IH [of "if value_exceeds th entry then n + 1 else n"] tr
    have IH: "reported_total (t, r) = None" by simp
    show ?thesis
      using IH fault_lines_not_total [of th entry]
      unfolding fault_loop_step_ok [OF True] tr
      by (auto simp: reported_total_def split: list.splits event.splits message.splits)
  qed
qed

lemma reported_total_check:
  "reported_total (check_for_fault (PList entries) th) =
     (if list_all (scannable th) entries
      then Some (length (filter (value_exceeds th) entries)) else None)"
proof (cases "list_all (scannable th) entries")
  case True
  then show ?thesis by (simp add: check_for_fault_ok reported_total_def)
next
  case False
  from fault_loop_bad [OF False] obtain t e where fl: "fault_loop th entries 0 = (t, Inl e)"
    by blast
  have "reported_total (fst (fault_loop th entries 0), Inl e) = None"
    by (rule fault_loop_trace_reports)
  with False fl show ?thesis by (simp add: check_for_fault_def io_bind_def)
qed

lemma perm_invariants:
  assumes "mset xs = mset ys"
  shows "list_all P xs = list_all P ys" "length (filter P xs) = length (filter P ys)"
proof -
  from assms have "set xs = set ys" by (rule mset_eq_setD)
  then show "list_all P xs = list_all P ys" by (simp add: list_all_iff)
  from assms have "mset (filter P xs) = mset (filter P ys)" by simp
  then show "length (filter P xs) = length (filter P ys)" by (rule mset_eq_length)
qed

subsection \<open>Which exception, and when\<close>

lemma scannable_precondition: "scannable th entry \<Longrightarrow> fault_precondition th entry"
  by (cases entry)
     (auto simp: scannable_def fault_precondition_def numeric_value_def has_key_def
        split: sum.splits option.splits)

lemma fault_loop_type_error:
  assumes "fault_precondition th entry" "\<not> scannable th entry"
  shows "fault_loop th (entry # rest) n = ([], Inl TypeError)"
  using assms
  by (auto simp: scannable_def fault_precondition_def numeric_value_def has_key_def
        value_exceeds_def py_gt_def split: sum.splits option.splits)

lemma fault_loop_no_KeyError:
  "list_all (fault_precondition th) entries \<Longrightarrow>
   snd (fault_loop th entries n) \<noteq> Inl (KeyError k)"
proof (induction entries arbitrary: n)
  case Nil
  then show ?case by simp
next
  case (Cons entry rest)
  then have pre: "fault_precondition th entry"
    and rest: "list_all (fault_precondition th) rest"
    by simp_all
  show ?case
  proof (cases "scannable th entry")
    case True
    have "snd (fault_loop th (entry # rest) n) =
            snd (fault_loop th rest (if value_exceeds th entry then n + 1 else n))"
      unfolding fault_loop_step_ok [OF True] by (simp split: prod.splits)
    with Cons.IH [OF rest, of "if value_exceeds th entry then n + 1 else n"]
    show ?thesis by simp
  next
    case False
    from fault_loop_type_error [OF pre False] show ?thesis by simp
  qed
qed

lemma check_for_fault_no_KeyError:
  assumes "list_all (fault_precondition th) entries"
  shows "snd (check_for_fault (PList entries) th) \<noteq> Inl (KeyError k)"
  using fault_loop_no_KeyError [OF assms, of 0 k]
  by (auto simp: check_for_fault_def io_bind_def split: sum.splits prod.splits if_splits)

lemma check_for_fault_returns_pre:
  assumes "snd (check_for_fault (PList entries) th) = Inr v"
  shows "list_all (fault_precondition th) entries"
proof -
  have "list_all (scannable th) entries"
  proof (rule ccontr)
    assume "\<not> list_all (scannable th) entries"
    from check_for_fault_bad [OF this] assms show False by auto
  qed
  then show ?thesis by (auto simp: list_all_iff scannable_precondition)
qed

section \<open>Traces of the entry point\<close>

lemma io_bind_filter:
  "filter P (fst (io_bind m f)) =
     filter P (fst m) @ (case snd m of Inl _ \<Rightarrow> [] | Inr x \<Rightarrow> filter P (fst (f x)))"
  by (auto simp: io_bind_def split: prod.splits sum.splits)

lemma snd_io_bind:
  "snd (io_bind m f) = (case snd m of Inl e \<Rightarrow> Inl e | Inr x \<Rightarrow> snd (f x))"
  by (auto simp: io_bind_def split: prod.splits sum.splits)

lemma insert_telemetry_reports:
  "filter is_fault_report (fst (insert_telemetry http a b c d e)) = []"
  by (simp add: insert_telemetry_def Let_def split: sum.splits)

lemma query_telemetry_reports:
  "filter is_fault_report (fst (query_telemetry http a b c)) = []"
  by (simp add: query_telemetry_def Let_def split: sum.splits)

lemma io_bind_assoc: "io_bind (io_bind m f) g = io_bind m (\<lambda>x. io_bind (f x) g)"
  by (auto simp: io_bind_def split: prod.splits sum.splits)

lemma io_bind_returns:
  "snd m = Inr x \<Longrightarrow> io_bind m f = (fst m @ fst (f x), snd (f x))"
  by (cases m) (auto simp: io_bind_def split: prod.splits)

lemma main_unfold:
  "main http =
     io_bind (demo_inserts http) (\<lambda>_.
       io_bind (demo_query http) (\<lambda>data.
         if py_truthy data then check_for_fault data float_0_95 else ([], Inr PNone)))"
  by (simp add: main_def demo_inserts_def demo_query_def io_bind_assoc)

lemma main_after_query:
  assumes "snd (demo_query http) = Inr data"
  shows "main http =
           io_bind (demo_inserts http) (\<lambda>_.
             if py_truthy data
             then (fst (demo_query http) @ fst (check_for_fault data float_0_95),
                   snd (check_for_fault data float_0_95))
             else (fst (demo_query http), Inr PNone))"
  unfolding main_unfold io_bind_returns [OF assms] by simp

lemma demo_inserts_reports: "filter is_fault_report (fst (demo_inserts http)) = []"
  by (simp add: demo_inserts_def io_bind_filter insert_telemetry_reports split: sum.splits)

lemma demo_query_reports: "filter is_fault_report (fst (demo_query http)) = []"
  by (simp add: demo_query_def query_telemetry_reports)

lemma demo_inserts_answered:
  assumes "\<And>req. \<exists>r. http req = Inr r"
  shows "\<exists>t. demo_inserts http = (t, Inr PNone)"
proof -
  have i: "\<exists>t. insert_telemetry http a b c d e = (t, Inr PNone)" for a b c d e
    using assms [of "Post (BASE_URL @ ''/telemetry'')
        (PDict [(''sensor_name'', a), (''timestamp'', b), (''value'', c),
                (''fc1_flag'', case e of None \<Rightarrow> PNone | Some f \<Rightarrow> f),
                (''timeseries_id'', d)])"]
    by (auto simp: insert_telemetry_def Let_def)
  obtain t1 t2 t3 where
    "insert_telemetry http (PStr ''Sa_FanSpeed'') (PStr ''2024-08-28T12:00:00Z'')
                (PFloat float_0_8) series_id None = (t1, Inr PNone)"
    "insert_telemetry http (PStr ''Sa_FanSpeed'') (PStr ''2024-08-28T12:01:00Z'')
                (PFloat float_0_9) series_id None = (t2, Inr PNone)"
    "insert_telemetry http (PStr ''Sa_FanSpeed'') (PStr ''2024-08-28T12:02:00Z'')
                (PFloat (Finite 1)) series_id None = (t3, Inr PNone)"
    using i by metis
  then show ?thesis by (simp add: demo_inserts_def io_bind_def)
qed

lemma servers_answer:
  "\<forall>req. \<exists>r. server_no_readings req = Inr r"
  "\<forall>req. \<exists>r. server_error req = Inr r"
  "\<forall>req. \<exists>r. server_two_readings req = Inr r"
  by (simp_all add: server_no_readings_def server_error_def server_two_readings_def)

lemma demo_query_examples:
  "snd (query_telemetry server_no_readings series_id (PStr ''2024-08-28T12:00:00Z'')
          (PStr ''2024-08-28T12:03:00Z'')) = Inr (PList [])"
  "snd (query_telemetry server_error series_id (PStr ''2024-08-28T12:00:00Z'')
          (PStr ''2024-08-28T12:03:00Z'')) = Inr PNone"
  "snd (query_telemetry server_two_readings series_id (PStr ''2024-08-28T12:00:00Z'')
          (PStr ''2024-08-28T12:03:00Z'')) = Inr (PList [reading_t1, reading_t2])"
  by (simp_all add: query_telemetry_def Let_def response_json_def
        server_no_readings_def server_error_def server_two_readings_def)

section \<open>Properties\<close>

text \<open>
  C1. On a sequence of entries the loop can process, and for every numeric threshold,
  \<^verbatim>\<open>check_for_fault\<close> counts one fault for each entry whose value is strictly greater
  than the threshold and none for the others: the final \<^verbatim>\<open>fault_count\<close> is the number
  of entries with value > threshold, it is the total the last line reports, and there is
  one "Fault detected" line per counted entry, in input order. For finite numbers the
  test is the strict order, so a value equal to the threshold is not counted.
\<close>

theorem check_for_fault_counts_exceeding:
  assumes "list_all (scannable th) entries"
  shows "fault_loop th entries 0 =
           (concat (map (fault_lines th) entries),
            Inr (length (filter (value_exceeds th) entries)))
       \<and> check_for_fault (PList entries) th =
           (concat (map (fault_lines th) entries) @
              [Print (if length (filter (value_exceeds th) entries) = 0 then NoFaults
                      else TotalFaults (length (filter (value_exceeds th) entries)))],
            Inr PNone)
       \<and> length (concat (map (fault_lines th) entries)) =
           length (filter (value_exceeds th) entries)
       \<and> (\<forall>entry v x t.
             py_getitem entry ''value'' = Inr v \<longrightarrow> num_of v = Some (Finite x) \<longrightarrow>
             value_exceeds (Finite t) entry = (t < x))"
  using fault_loop_ok [OF assms, of 0] check_for_fault_ok [OF assms]
    length_concat_fault_lines [OF assms] value_exceeds_finite
  by simp

theorem check_for_fault_counts_exceeding_witness:
  "list_all (scannable float_0_95) [reading_t1, reading_t2]
   \<and> check_for_fault (PList [reading_t1, reading_t2]) float_0_95 =
       ([Print (FaultDetected (PStr ''t1'') (PFloat (Finite 1))), Print (TotalFaults 1)],
        Inr PNone)"
  using check_for_fault_counts_exceeding [of float_0_95 "[reading_t1, reading_t2]"]
  by (simp add: example_readings fault_lines_def) (simp add: reading_t1_def)

text \<open>
  C2. Every call of \<^verbatim>\<open>insert_telemetry\<close> makes exactly one call of the library, a
  POST to \<^verbatim>\<open>BASE_URL/telemetry\<close> whose JSON body is a mapping with exactly the five
  keys sensor_name, timestamp, value, fc1_flag and timeseries_id, each bound to the
  argument of that name; fc1_flag is present and bound to None (JSON null) when the
  caller omits it.
\<close>

theorem insert_telemetry_request_body:
  "\<exists>kvs. http_calls (fst (insert_telemetry http sensor_name timestamp val timeseries_id fc1_arg))
            = [Post (BASE_URL @ ''/telemetry'') (PDict kvs)]
     \<and> map fst kvs = [''sensor_name'', ''timestamp'', ''value'', ''fc1_flag'', ''timeseries_id'']
     \<and> map_of kvs ''sensor_name'' = Some sensor_name
     \<and> map_of kvs ''timestamp'' = Some timestamp
     \<and> map_of kvs ''value'' = Some val
     \<and> map_of kvs ''timeseries_id'' = Some timeseries_id
     \<and> map_of kvs ''fc1_flag'' = Some (case fc1_arg of None \<Rightarrow> PNone | Some f \<Rightarrow> f)"
  by (auto simp: insert_telemetry_def Let_def split: sum.splits)

text \<open>
  C3. When the server answers the query with a status other than 200,
  \<^verbatim>\<open>query_telemetry\<close> prints the failure line with the status code and the response
  text, and returns None; it does not raise.
\<close>

theorem query_telemetry_failure_returns_None:
  assumes "http (Get (BASE_URL @ ''/query_by_id'')
                  (PDict [(''timeseries_id'', timeseries_id), (''start_time'', start_time),
                          (''end_time'', end_time)])) = Inr r"
      and "status_code r \<noteq> 200"
  shows "query_telemetry http timeseries_id start_time end_time =
           ([HttpCall (Get (BASE_URL @ ''/query_by_id'')
                  (PDict [(''timeseries_id'', timeseries_id), (''start_time'', start_time),
                          (''end_time'', end_time)])),
             Print (QueryFailed (status_code r) (text_of r))],
            Inr PNone)"
  using assms by (simp add: query_telemetry_def Let_def)

theorem query_telemetry_failure_returns_None_witness:
  "query_telemetry server_error series_id (PStr ''2024-08-28T12:00:00Z'')
      (PStr ''2024-08-28T12:03:00Z'') =
     ([HttpCall (Get (BASE_URL @ ''/query_by_id'')
                  (PDict [(''timeseries_id'', series_id),
                          (''start_time'', PStr ''2024-08-28T12:00:00Z''),
                          (''end_time'', PStr ''2024-08-28T12:03:00Z'')])),
       Print (QueryFailed 500 ''Internal Server Error'')],
      Inr PNone)"
  using query_telemetry_failure_returns_None [of server_error series_id
      "PStr ''2024-08-28T12:00:00Z''" "PStr ''2024-08-28T12:03:00Z''"
      "\<lparr>status_code = 500, text_of = ''Internal Server Error'', body_json = None\<rparr>"]
  by (simp add: server_error_def)

text \<open>
  C4. When the server answers the query with status 200 and a body that is a JSON array,
  \<^verbatim>\<open>query_telemetry\<close> returns the parsed array itself: the same entries in the same
  order.
\<close>

theorem query_telemetry_returns_parsed_array:
  assumes "http (Get (BASE_URL @ ''/query_by_id'')
                  (PDict [(''timeseries_id'', timeseries_id), (''start_time'', start_time),
                          (''end_time'', end_time)])) = Inr r"
      and "status_code r = 200"
      and "body_json r = Some (PList entries)"
  shows "query_telemetry http timeseries_id start_time end_time =
           ([HttpCall (Get (BASE_URL @ ''/query_by_id'')
                  (PDict [(''timeseries_id'', timeseries_id), (''start_time'', start_time),
                          (''end_time'', end_time)])),
             Print QuerySuccessful],
            Inr (PList entries))"
  using assms by (simp add: query_telemetry_def Let_def response_json_def)

theorem query_telemetry_returns_parsed_array_witness:
  "snd (query_telemetry server_two_readings series_id (PStr ''2024-08-28T12:00:00Z'')
          (PStr ''2024-08-28T12:03:00Z'')) = Inr (PList [reading_t1, reading_t2])"
  using query_telemetry_returns_parsed_array [of server_two_readings series_id
      "PStr ''2024-08-28T12:00:00Z''" "PStr ''2024-08-28T12:03:00Z''"
      "\<lparr>status_code = 200, text_of = ''[...]'',
        body_json = Some (PList [reading_t1, reading_t2])\<rparr>"
      "[reading_t1, reading_t2]"]
  by (simp add: server_two_readings_def)

text \<open>
  C5. When the server answers the POST, \<^verbatim>\<open>insert_telemetry\<close> does not raise and
  returns None whatever the status, so the caller gets no success or failure value; on
  a status other than 200 what it prints is the failure line with the status code and
  the response text.
\<close>

theorem insert_telemetry_failure_reported:
  assumes "http (Post (BASE_URL @ ''/telemetry'')
                  (PDict [(''sensor_name'', sensor_name), (''timestamp'', timestamp),
                          (''value'', val),
                          (''fc1_flag'', case fc1_arg of None \<Rightarrow> PNone | Some f \<Rightarrow> f),
                          (''timeseries_id'', timeseries_id)])) = Inr r"
  shows "snd (insert_telemetry http sensor_name timestamp val timeseries_id fc1_arg) = Inr PNone
       \<and> (status_code r \<noteq> 200 \<longrightarrow>
            fst (insert_telemetry http sensor_name timestamp val timeseries_id fc1_arg) =
              [HttpCall (Post (BASE_URL @ ''/telemetry'')
                  (PDict [(''sensor_name'', sensor_name), (''timestamp'', timestamp),
                          (''value'', val),
                          (''fc1_flag'', case fc1_arg of None \<Rightarrow> PNone | Some f \<Rightarrow> f),
                          (''timeseries_id'', timeseries_id)])),
               Print (InsertFailed (status_code r) (text_of r))])"
  using assms by (simp add: insert_telemetry_def Let_def)

theorem insert_telemetry_failure_reported_witness:
  "insert_telemetry server_not_found (PStr ''Sa_FanSpeed'') (PStr ''2024-08-28T12:00:00Z'')
      (PFloat float_0_8) series_id None =
     ([HttpCall (Post (BASE_URL @ ''/telemetry'')
                  (PDict [(''sensor_name'', PStr ''Sa_FanSpeed''),
                          (''timestamp'', PStr ''2024-08-28T12:00:00Z''),
                          (''value'', PFloat float_0_8),
                          (''fc1_flag'', PNone),
                          (''timeseries_id'', series_id)])),
       Print (InsertFailed 404 ''Not Found'')],
      Inr PNone)"
  using insert_telemetry_failure_reported [of server_not_found "PStr ''Sa_FanSpeed''"
      "PStr ''2024-08-28T12:00:00Z''" "PFloat float_0_8" None series_id
      "\<lparr>status_code = 404, text_of = ''Not Found'', body_json = None\<rparr>"]
  by (simp add: server_not_found_def prod_eq_iff)

text \<open>
  C6. On the empty sequence the loop ends with a fault count of 0 and
  \<^verbatim>\<open>check_for_fault\<close> prints "No faults detected." and returns. The absent-data marker
  None is not an empty sequence: given None, the call prints nothing and raises.
\<close>

theorem check_for_fault_empty:
  "fault_loop th [] 0 = ([], Inr 0)
   \<and> check_for_fault (PList []) th = ([Print NoFaults], Inr PNone)
   \<and> check_for_fault PNone th = ([], Inl TypeError)"
  by (simp add: check_for_fault_def io_bind_def)

text \<open>
  C7. A sequence and a permutation of it give the same fault count: both calls raise,
  or both end with the same \<^verbatim>\<open>fault_count\<close> and report the same total.
\<close>

theorem check_for_fault_count_permutation:
  assumes "mset xs = mset ys"
  shows "counted (fault_loop th xs 0) = counted (fault_loop th ys 0)
       \<and> reported_total (check_for_fault (PList xs) th) =
           reported_total (check_for_fault (PList ys) th)"
  using perm_invariants [OF assms, of "scannable th"]
    perm_invariants [OF assms, of "value_exceeds th"]
  by (simp add: counted_fault_loop reported_total_check)

theorem check_for_fault_count_permutation_witness:
  "mset [reading_t1, reading_t2] = mset [reading_t2, reading_t1]
   \<and> counted (fault_loop float_0_95 [reading_t1, reading_t2] 0) = Some 1
   \<and> counted (fault_loop float_0_95 [reading_t2, reading_t1] 0) = Some 1
   \<and> reported_total (check_for_fault (PList [reading_t2, reading_t1]) float_0_95) = Some 1"
proof -
  have p: "mset [reading_t1, reading_t2] = mset [reading_t2, reading_t1]" by simp
  have c: "counted (fault_loop float_0_95 [reading_t1, reading_t2] 0) = Some 1"
    unfolding counted_fault_loop by (simp add: example_readings)
  have r: "reported_total (check_for_fault (PList [reading_t1, reading_t2]) float_0_95) = Some 1"
    unfolding reported_total_check by (simp add: example_readings)
  from check_for_fault_count_permutation [OF p, of float_0_95] p c r
  show ?thesis by metis
qed

text \<open>
  C8. \<^verbatim>\<open>check_for_fault\<close> never returns anything but None: whatever its arguments, it
  raises or returns None, and on a sequence of entries the loop can process it returns
  None. The fault count goes to the output only.
\<close>

theorem check_for_fault_returns_None:
  "(snd (check_for_fault data th) = Inr PNone \<or> isl (snd (check_for_fault data th)))
   \<and> (list_all (scannable th) entries \<longrightarrow>
        snd (check_for_fault (PList entries) th) = Inr PNone)"
proof
  show "snd (check_for_fault data th) = Inr PNone \<or> isl (snd (check_for_fault data th))"
    by (auto simp: check_for_fault_def io_bind_def split: sum.splits prod.splits)
  show "list_all (scannable th) entries \<longrightarrow>
        snd (check_for_fault (PList entries) th) = Inr PNone"
    by (simp add: check_for_fault_ok)
qed

theorem check_for_fault_returns_None_witness:
  "list_all (scannable float_0_95) [reading_t1, reading_t2]
   \<and> snd (check_for_fault (PList [reading_t1, reading_t2]) float_0_95) = Inr PNone
   \<and> counted (fault_loop float_0_95 [reading_t1, reading_t2] 0) = Some 1"
proof -
  have s: "list_all (scannable float_0_95) [reading_t1, reading_t2]"
    by (simp add: example_readings)
  have c: "counted (fault_loop float_0_95 [reading_t1, reading_t2] 0) = Some 1"
    unfolding counted_fault_loop by (simp add: example_readings)
  from check_for_fault_returns_None
         [of "PList [reading_t1, reading_t2]" float_0_95 "[reading_t1, reading_t2]"] s c
  show ?thesis by blast
qed

text \<open>
  C9. A call of \<^verbatim>\<open>check_for_fault\<close> on a sequence returns only if every entry is a
  mapping with the key \<^verbatim>\<open>'value'\<close> and, where the value is greater than the threshold,
  the key \<^verbatim>\<open>'timestamp'\<close>. An entry without \<^verbatim>\<open>'value'\<close> makes the call raise
  KeyError, and so does a missing \<^verbatim>\<open>'timestamp'\<close> on an entry above the threshold.
  When every entry meets the condition, no KeyError is raised.
\<close>

theorem check_for_fault_key_precondition:
  "(snd (check_for_fault (PList entries) th) = Inr v \<longrightarrow>
      list_all (fault_precondition th) entries)
   \<and> check_for_fault (PList [PDict [(''timestamp'', PStr ''t1'')]]) th
       = ([], Inl (KeyError ''value''))
   \<and> check_for_fault (PList [PDict [(''value'', PFloat (Finite 1))]]) float_0_95
       = ([], Inl (KeyError ''timestamp''))
   \<and> (list_all (fault_precondition th) entries \<longrightarrow>
        snd (check_for_fault (PList entries) th) \<noteq> Inl (KeyError k))"
proof (intro conjI impI)
  assume "snd (check_for_fault (PList entries) th) = Inr v"
  then show "list_all (fault_precondition th) entries" by (rule check_for_fault_returns_pre)
next
  show "check_for_fault (PList [PDict [(''timestamp'', PStr ''t1'')]]) th
          = ([], Inl (KeyError ''value''))"
    by (simp add: check_for_fault_def io_bind_def)
next
  show "check_for_fault (PList [PDict [(''value'', PFloat (Finite 1))]]) float_0_95
          = ([], Inl (KeyError ''timestamp''))"
    by (simp add: check_for_fault_def io_bind_def py_gt_def float_0_95_def)
next
  assume "list_all (fault_precondition th) entries"
  then show "snd (check_for_fault (PList entries) th) \<noteq> Inl (KeyError k)"
    by (rule check_for_fault_no_KeyError)
qed

theorem check_for_fault_key_precondition_witness:
  "snd (check_for_fault (PList [reading_t1, reading_t2]) float_0_95) = Inr PNone
   \<and> list_all (fault_precondition float_0_95) [reading_t1, reading_t2]
   \<and> snd (check_for_fault (PList [reading_t1, reading_t2]) float_0_95)
       \<noteq> Inl (KeyError ''value'')"
proof -
  have r: "snd (check_for_fault (PList [reading_t1, reading_t2]) float_0_95) = Inr PNone"
    by (simp add: check_for_fault_ok example_readings)
  from check_for_fault_key_precondition [of "[reading_t1, reading_t2]" float_0_95 PNone "''value''"] r
  show ?thesis by blast
qed

text \<open>
  C10. The entry point guards \<^verbatim>\<open>check_for_fault\<close> by the truth value of the query
  result. When the result is falsy, as None and the empty list are, the call is skipped:
  the run is the three inserts and the query and nothing more, it prints no line of
  \<^verbatim>\<open>check_for_fault\<close>, and it ends normally when the requests are answered. Had the
  call been made it would show: on the empty list it prints "No faults detected.", on None
  it raises TypeError. When the result is truthy, the call is made on it with threshold
  0.95.
\<close>

theorem main_skips_check_on_falsy_data:
  assumes "snd (query_telemetry http series_id (PStr ''2024-08-28T12:00:00Z'')
                  (PStr ''2024-08-28T12:03:00Z'')) = Inr data"
  shows "(\<not> py_truthy data \<longrightarrow>
            main http = io_bind (demo_inserts http) (\<lambda>_. (fst (demo_query http), Inr PNone))
          \<and> filter is_fault_report (fst (main http)) = []
          \<and> (\<forall>r. snd (demo_inserts http) = Inr r \<longrightarrow>
                main http = (fst (demo_inserts http) @ fst (demo_query http), Inr PNone)))
       \<and> ((\<forall>req. \<exists>r. http req = Inr r) \<longrightarrow> \<not> py_truthy data \<longrightarrow>
            snd (main http) = Inr PNone)
       \<and> (py_truthy data \<longrightarrow>
            main http =
              io_bind (demo_inserts http)
                (\<lambda>_. (fst (demo_query http) @ fst (check_for_fault data float_0_95),
                      snd (check_for_fault data float_0_95))))
       \<and> \<not> py_truthy PNone \<and> \<not> py_truthy (PList [])
       \<and> check_for_fault (PList []) float_0_95 = ([Print NoFaults], Inr PNone)
       \<and> check_for_fault PNone float_0_95 = ([], Inl TypeError)"
proof -
  from assms have q: "snd (demo_query http) = Inr data" by (simp add: demo_query_def)
  note m = main_after_query [OF q]
  have skip: "main http = io_bind (demo_inserts http) (\<lambda>_. (fst (demo_query http), Inr PNone))"
    if "\<not> py_truthy data"
    using m that by simp
  have quiet: "filter is_fault_report (fst (main http)) = []" if "\<not> py_truthy data"
    unfolding skip [OF that]
    by (simp add: io_bind_filter demo_inserts_reports demo_query_reports split: sum.splits)
  have finished: "main http = (fst (demo_inserts http) @ fst (demo_query http), Inr PNone)"
    if "\<not> py_truthy data" "snd (demo_inserts http) = Inr r" for r
    unfolding skip [OF that(1)] io_bind_returns [OF that(2)] by simp
  have called: "main http =
              io_bind (demo_inserts http)
                (\<lambda>_. (fst (demo_query http) @ fst (check_for_fault data float_0_95),
                      snd (check_for_fault data float_0_95)))" if "py_truthy data"
    using m that by simp
  have e: "check_for_fault (PList []) float_0_95 = ([Print NoFaults], Inr PNone)"
    "check_for_fault PNone float_0_95 = ([], Inl TypeError)"
    by (simp_all add: check_for_fault_def io_bind_def)
  have answered: "snd (main http) = Inr PNone"
    if "\<forall>req. \<exists>r. http req = Inr r" "\<not> py_truthy data"
  proof -
    from that(1) have "\<exists>t. demo_inserts http = (t, Inr PNone)"
      by (intro demo_inserts_answered) simp
    then obtain t where "demo_inserts http = (t, Inr PNone)" ..
    then have "snd (demo_inserts http) = Inr PNone" by simp
    from finished [OF that(2) this] show ?thesis by simp
  qed
  from skip quiet finished answered called e show ?thesis by simp
qed


theorem main_skips_check_on_falsy_data_witness:
  "snd (query_telemetry server_no_readings series_id (PStr ''2024-08-28T12:00:00Z'')
          (PStr ''2024-08-28T12:03:00Z'')) = Inr (PList [])
   \<and> filter is_fault_report (fst (main server_no_readings)) = []
   \<and> snd (main server_no_readings) = Inr PNone
   \<and> snd (query_telemetry server_error series_id (PStr ''2024-08-28T12:00:00Z'')
          (PStr ''2024-08-28T12:03:00Z'')) = Inr PNone
   \<and> filter is_fault_report (fst (main server_error)) = []
   \<and> snd (main server_error) = Inr PNone
   \<and> snd (query_telemetry server_two_readings series_id (PStr ''2024-08-28T12:00:00Z'')
          (PStr ''2024-08-28T12:03:00Z'')) = Inr (PList [reading_t1, reading_t2])
   \<and> filter is_fault_report (fst (main server_two_readings)) =
       [Print (FaultDetected (PStr ''t1'') (PFloat (Finite 1))), Print (TotalFaults 1)]
   \<and> snd (main server_two_readings) = Inr PNone"
proof -
  note q = demo_query_examples
  have f: "\<not> py_truthy (PList [])" "\<not> py_truthy PNone"
    "py_truthy (PList [reading_t1, reading_t2])" by simp_all
  from main_skips_check_on_falsy_data [OF q(1)] f(1) servers_answer(1)
  have a: "filter is_fault_report (fst (main server_no_readings)) = []"
    "snd (main server_no_readings) = Inr PNone" by blast+
  from main_skips_check_on_falsy_data [OF q(2)] f(2) servers_answer(2)
  have b: "filter is_fault_report (fst (main server_error)) = []"
    "snd (main server_error) = Inr PNone" by blast+
  from main_skips_check_on_falsy_data [OF q(3)] f(3)
  have c: "main server_two_readings =
      io_bind (demo_inserts server_two_readings)
        (\<lambda>_. (fst (demo_query server_two_readings) @
                fst (check_for_fault (PList [reading_t1, reading_t2]) float_0_95),
              snd (check_for_fault (PList [reading_t1, reading_t2]) float_0_95)))"
    by blast
  from demo_inserts_answered [of server_two_readings] servers_answer(3)
  obtain t where t: "demo_inserts server_two_readings = (t, Inr PNone)" by blast
  have chk: "check_for_fault (PList [reading_t1, reading_t2]) float_0_95 =
       ([Print (FaultDetected (PStr ''t1'') (PFloat (Finite 1))), Print (TotalFaults 1)],
        Inr PNone)"
    by (simp add: check_for_fault_ok example_readings fault_lines_def)
       (simp add: reading_t1_def)
  have c1: "filter is_fault_report (fst (main server_two_readings)) =
       [Print (FaultDetected (PStr ''t1'') (PFloat (Finite 1))), Print (TotalFaults 1)]"
    unfolding c chk
    using demo_inserts_reports [of server_two_readings] demo_query_reports [of server_two_readings]
    by (simp add: io_bind_filter t)
  have c2: "snd (main server_two_readings) = Inr PNone"
    unfolding c chk by (simp add: snd_io_bind t)
  from q a b c1 c2 show ?thesis by simp
qed

end
